theory Spec2Isabelle
  imports Main "HOL-Library.Sublist" "HOL-Library.AList"
begin

section \<open>unienv: the runtime dispatch of \<open>src/index.ts\<close>\<close>

text \<open>
  \<open>index.ts\<close> imports three modules of the repository that are not among the sources:
  \<open>types.ts\<close> (\<open>Maybe\<close>, \<open>Result\<close>, \<open>Ok\<close>, \<open>Ng\<close>), \<open>commons.ts\<close> (\<open>RuntimeName\<close>,
  \<open>Commons.runtime.version\<close>, \<open>Commons.env\<close>, \<open>Commons.permissions\<close>) and \<open>utils.ts\<close>
  (\<open>Utils.ucFirst\<close>, \<open>Utils.versioning.moreThan\<close>, \<open>Utils.loadEnvIfNeeded\<close>).
  The values and the effectful functions of \<open>commons.ts\<close> and the loader are parameters of
  the model (the record \<open>host\<close>): what is proved of the handlers holds for every host.
  The two pure helpers of \<open>utils.ts\<close> are modelled from the specification, and so is one
  host (\<open>spec_host\<close>), on which the examples run and the round trip of \<open>set\<close>, \<open>get\<close> and
  \<open>delete\<close> is stated; each such definition is marked.
\<close>

subsection \<open>Results and errors\<close>

text \<open>\<open>Maybe<string>\<close> is \<open>string option\<close>; \<open>Result<T, E>\<close> has the two variants \<open>Ok\<close>, \<open>Ng\<close>.\<close>

datatype ('a, 'e) Result = Ok 'a | Ng 'e

text \<open>
  An error object is an \<open>Error\<close> or a \<open>VersionError\<close> (its \<open>name\<close>), with its \<open>message\<close>.
\<close>

datatype error = Error (message: string) | VersionError (message: string)

fun error_name :: "error \<Rightarrow> string" where
  "error_name (Error m) = ''Error''"
| "error_name (VersionError m) = ''VersionError''"

record versions =
  require :: string
  current :: string

record versionErrorProp =
  prop_runtime :: string
  prop_version :: versions

text \<open>The constructor of \<open>class VersionError\<close>: the message is the template string.\<close>

definition new_VersionError :: "versionErrorProp \<Rightarrow> error" where
  "new_VersionError prop =
     (let runtime = prop_runtime prop;
          require = require (prop_version prop);
          current = current (prop_version prop);
          errorText = runtime @ '' version '' @ require
                        @ '' or higher is required. Current version: '' @ current
      in VersionError errorText)"

subsection \<open>The helpers of \<open>utils.ts\<close>\<close>

text \<open>
  Modelled from the spec: the upper case of a character, for \<open>Utils.ucFirst\<close> below
  (\<open>utils.ts\<close> is not among the sources).
\<close>

definition upper_char :: "char \<Rightarrow> char" where
  "upper_char c =
     (case map_of (zip ''abcdefghijklmnopqrstuvwxyz'' ''ABCDEFGHIJKLMNOPQRSTUVWXYZ'') c of
        Some u \<Rightarrow> u
      | None \<Rightarrow> c)"

text \<open>
  Modelled from the spec: \<open>Utils.ucFirst\<close> (\<open>utils.ts\<close> is not among the sources). The
  spec's words: the display name is "the runtime identifier capitalized". The first
  character is turned to upper case, the rest is kept.
\<close>

fun ucFirst :: "string \<Rightarrow> string" where
  "ucFirst [] = []"
| "ucFirst (c # cs) = upper_char c # cs"

text \<open>
  Modelled from the spec: the parts of \<open>Utils.versioning.moreThan\<close> below (\<open>utils.ts\<close> is
  not among the sources). A version string is split at its dots (\<open>n\<close> dots give \<open>n + 1\<close>
  components) and each component is read as a decimal number.
\<close>

fun split_on :: "char \<Rightarrow> string \<Rightarrow> string list" where
  "split_on d [] = [[]]"
| "split_on d (c # cs) =
     (if c = d then [] # split_on d cs
      else (case split_on d cs of
              [] \<Rightarrow> [[c]]
            | p # ps \<Rightarrow> (c # p) # ps))"

definition digit_val :: "char \<Rightarrow> nat" where
  "digit_val c =
     (case map_of (zip ''0123456789'' [0, 1, 2, 3, 4, 5, 6, 7, 8, 9]) c of
        Some n \<Rightarrow> n
      | None \<Rightarrow> 0)"

definition parse_nat :: "string \<Rightarrow> nat" where
  "parse_nat s = foldl (\<lambda>acc c. 10 * acc + digit_val c) 0 s"

text \<open>
  Modelled from the spec: \<open>Utils.versioning.moreThan\<close> (\<open>utils.ts\<close> is not among the
  sources). The spec's words: given \<open>(require, current)\<close>, both in \<open>MAJOR.MINOR.PATCH\<close>
  form, it is true if \<open>current\<close> is greater than or equal to \<open>require\<close>, the major compared
  first, then the minor, then the patch, each as an integer and not as a string. The
  spec leaves malformed input to the caller; here a string that does not have three
  components makes the answer \<open>False\<close>.
\<close>

definition moreThan :: "string \<Rightarrow> string \<Rightarrow> bool" where
  "moreThan req cur =
     (case (map parse_nat (split_on CHR ''.'' req), map parse_nat (split_on CHR ''.'' cur)) of
        ([rmajor, rminor, rpatch], [cmajor, cminor, cpatch]) \<Rightarrow>
          rmajor < cmajor
          \<or> (rmajor = cmajor \<and> (rminor < cminor \<or> (rminor = cminor \<and> rpatch \<le> cpatch)))
      | _ \<Rightarrow> False)"

text \<open>The decimal numeral of a number, and the version string of three numbers.\<close>

definition digit_char :: "nat \<Rightarrow> char" where
  "digit_char n = ''0123456789'' ! n"

fun decimal :: "nat \<Rightarrow> string" where
  "decimal n = (if n < 10 then [digit_char n] else decimal (n div 10) @ [digit_char (n mod 10)])"

definition semver :: "nat \<Rightarrow> nat \<Rightarrow> nat \<Rightarrow> string" where
  "semver major minor patch = decimal major @ ''.'' @ decimal minor @ ''.'' @ decimal patch"

declare decimal.simps [simp del]

subsection \<open>The host: what \<open>commons.ts\<close> and the loader provide\<close>

text \<open>
  A collaborator call runs on the state \<open>'w\<close> of the host (the environment table, the
  \<open>.env\<close> file, the permissions) and either returns a value (\<open>Inr\<close>) or throws an
  \<open>Error\<close> with a message (\<open>Inl\<close>); either way it leaves a host state behind. The
  handlers read \<open>(e as Error).message\<close>: what is thrown is taken to be an \<open>Error\<close> object.
\<close>

type_synonym ('a, 'w) collaborator = "'w \<Rightarrow> (string + 'a) \<times> 'w"

record 'w host =
  RuntimeName :: string
  runtime_version :: versions
  execArgv :: "string list"
  env_get :: "string \<Rightarrow> (string option, 'w) collaborator"
  env_set :: "string \<Rightarrow> string \<Rightarrow> (unit, 'w) collaborator"
  env_delete :: "string \<Rightarrow> (unit, 'w) collaborator"
  permissions :: "string \<Rightarrow> (string, 'w) collaborator"
  loadEnvIfNeeded :: "(unit, 'w) collaborator"

text \<open>
  The process state is the host state together with the log of the collaborator calls
  made so far, each with how it ended. The log is what a test double would record; the
  handlers never read it.
\<close>

datatype call =
    Env_get string
  | Env_set string string
  | Env_delete string
  | Permissions string
  | LoadEnvIfNeeded

datatype outcome = Returned | Threw string

record 'w process =
  calls :: "(call \<times> outcome) list"
  world :: 'w

fun outcome_of :: "string + 'a \<Rightarrow> outcome" where
  "outcome_of (Inl m) = Threw m"
| "outcome_of (Inr v) = Returned"

definition invoke :: "call \<Rightarrow> ('a, 'w) collaborator \<Rightarrow> 'w process \<Rightarrow> (string + 'a) \<times> 'w process" where
  "invoke c f s =
     (case f (world s) of
        (r, w) \<Rightarrow> (r, \<lparr>calls = calls s @ [(c, outcome_of r)], world = w\<rparr>))"

subsection \<open>Normal and abrupt completion\<close>

text \<open>
  A piece of code run on a process state completes normally with a value, or abruptly
  with what was thrown. Inside a handler what is thrown is the \<open>Error\<close> of a
  collaborator, kept by its message. \<open>try_catch\<close> is the \<open>try { ... } catch (e) { ... }\<close>
  of the source: only an abrupt completion of the body reaches the second block.
\<close>

datatype ('a, 'e) completion = Normal 'a | Throw 'e

type_synonym ('a, 'w) action = "'w process \<Rightarrow> ('a, string) completion \<times> 'w process"

definition returns :: "'a \<Rightarrow> ('a, 'w) action" where
  "returns v s = (Normal v, s)"

definition and_then :: "('a, 'w) action \<Rightarrow> ('a \<Rightarrow> ('b, 'w) action) \<Rightarrow> ('b, 'w) action" where
  "and_then first rest s =
     (case first s of
        (Normal v, s') \<Rightarrow> rest v s'
      | (Throw e, s') \<Rightarrow> (Throw e, s'))"

definition perform :: "call \<Rightarrow> ('a, 'w) collaborator \<Rightarrow> ('a, 'w) action" where
  "perform c f s =
     (case invoke c f s of
        (Inr v, s') \<Rightarrow> (Normal v, s')
      | (Inl m, s') \<Rightarrow> (Throw m, s'))"

definition try_catch :: "('a, 'w) action \<Rightarrow> (string \<Rightarrow> ('a, 'w) action) \<Rightarrow> ('a, 'w) action" where
  "try_catch body handler s =
     (case body s of
        (Normal v, s') \<Rightarrow> (Normal v, s')
      | (Throw e, s') \<Rightarrow> handler e s')"

subsection \<open>The constants of the module\<close>

definition runtime :: "'w host \<Rightarrow> string" where
  "runtime h =
     ucFirst (if RuntimeName h = ''node'' then RuntimeName h @ ''.js'' else RuntimeName h)"

definition version :: "'w host \<Rightarrow> versions" where
  "version h =
     \<lparr>require = require (runtime_version h), current = current (runtime_version h)\<rparr>"

definition genericVersionError :: "'w host \<Rightarrow> versionErrorProp" where
  "genericVersionError h = \<lparr>prop_runtime = runtime h, prop_version = version h\<rparr>"

definition nodeVersionError :: "'w host \<Rightarrow> versionErrorProp" where
  "nodeVersionError h =
     \<lparr>prop_runtime = runtime h,
      prop_version = \<lparr>require = ''20.6.0'', current = current (version h)\<rparr>\<rparr>"

definition isSatisfiesVersion :: "'w host \<Rightarrow> bool" where
  "isSatisfiesVersion h = moreThan (require (version h)) (current (version h))"

subsection \<open>The handler tables\<close>

type_synonym ('a, 'w) handler = "(('a, error) Result, 'w) action"

definition setRuntimeMap_node :: "'w host \<Rightarrow> string \<Rightarrow> string \<Rightarrow> (unit, 'w) handler" where
  "setRuntimeMap_node h key val =
     (if \<not> isSatisfiesVersion h then returns (Ng (new_VersionError (genericVersionError h)))
      else try_catch
             (and_then (perform (Env_set key val) (env_set h key val)) (\<lambda>u. returns (Ok u)))
             (\<lambda>m. returns (Ng (Error m))))"

definition setRuntimeMap_bun :: "'w host \<Rightarrow> string \<Rightarrow> string \<Rightarrow> (unit, 'w) handler" where
  "setRuntimeMap_bun h key val =
     (if \<not> isSatisfiesVersion h then returns (Ng (new_VersionError (genericVersionError h)))
      else try_catch
             (and_then (perform (Env_set key val) (env_set h key val)) (\<lambda>u. returns (Ok u)))
             (\<lambda>m. returns (Ng (Error m))))"

definition setRuntimeMap_deno :: "'w host \<Rightarrow> string \<Rightarrow> string \<Rightarrow> (unit, 'w) handler" where
  "setRuntimeMap_deno h key val =
     (if \<not> isSatisfiesVersion h then returns (Ng (new_VersionError (genericVersionError h)))
      else try_catch
             (and_then (perform (Env_set key val) (env_set h key val)) (\<lambda>u. returns (Ok u)))
             (\<lambda>m. returns (Ng (Error m))))"

text \<open>
  \<open>getRuntimeMap.node\<close>: the gate and the look at \<open>process.execArgv\<close> stand before the
  \<open>try\<close> blocks. With an \<open>--env-file=\<close> argument the adapter is read directly and a
  throw becomes the \<open>VersionError\<close> of \<open>nodeVersionError\<close> (the \<open>catch\<close> has no binding);
  without one the loader runs first, and a throw of either call becomes an \<open>Error\<close>
  with the same message.
\<close>

definition getRuntimeMap_node :: "'w host \<Rightarrow> string \<Rightarrow> (string option, 'w) handler" where
  "getRuntimeMap_node h key =
     (if \<not> isSatisfiesVersion h then returns (Ng (new_VersionError (genericVersionError h)))
      else
        let envFileSpecified = filter (\<lambda>execArg. prefix ''--env-file='' execArg) (execArgv h)
        in if length envFileSpecified \<noteq> 0 then
             try_catch
               (and_then (perform (Env_get key) (env_get h key)) (\<lambda>v. returns (Ok v)))
               (\<lambda>m. returns (Ng (new_VersionError (nodeVersionError h))))
           else
             try_catch
               (and_then (perform LoadEnvIfNeeded (loadEnvIfNeeded h)) (\<lambda>u.
                and_then (perform (Env_get key) (env_get h key)) (\<lambda>v. returns (Ok v))))
               (\<lambda>m. returns (Ng (Error m))))"

definition getRuntimeMap_bun :: "'w host \<Rightarrow> string \<Rightarrow> (string option, 'w) handler" where
  "getRuntimeMap_bun h key =
     (if \<not> isSatisfiesVersion h then returns (Ng (new_VersionError (genericVersionError h)))
      else try_catch
             (and_then (perform (Env_get key) (env_get h key)) (\<lambda>v. returns (Ok v)))
             (\<lambda>m. returns (Ng (Error m))))"

text \<open>
  \<open>getRuntimeMap.deno\<close>: the permission query, the loader (only after the answer
  \<open>granted\<close>) and the read stand in one \<open>try\<close> block; the first throw ends it.
\<close>

definition getRuntimeMap_deno :: "'w host \<Rightarrow> string \<Rightarrow> (string option, 'w) handler" where
  "getRuntimeMap_deno h key =
     (if \<not> isSatisfiesVersion h then returns (Ng (new_VersionError (genericVersionError h)))
      else try_catch
             (and_then (perform (Permissions ''read'') (permissions h ''read'')) (\<lambda>permission.
              and_then (if permission = ''granted''
                        then perform LoadEnvIfNeeded (loadEnvIfNeeded h)
                        else returns ()) (\<lambda>u.
              and_then (perform (Env_get key) (env_get h key)) (\<lambda>v. returns (Ok v)))))
             (\<lambda>m. returns (Ng (Error m))))"

definition deleteRuntimeMap_node :: "'w host \<Rightarrow> string \<Rightarrow> (unit, 'w) handler" where
  "deleteRuntimeMap_node h key =
     (if \<not> isSatisfiesVersion h then returns (Ng (new_VersionError (genericVersionError h)))
      else try_catch
             (and_then (perform (Env_delete key) (env_delete h key)) (\<lambda>u. returns (Ok u)))
             (\<lambda>m. returns (Ng (Error m))))"

definition deleteRuntimeMap_bun :: "'w host \<Rightarrow> string \<Rightarrow> (unit, 'w) handler" where
  "deleteRuntimeMap_bun h key =
     (if \<not> isSatisfiesVersion h then returns (Ng (new_VersionError (genericVersionError h)))
      else try_catch
             (and_then (perform (Env_delete key) (env_delete h key)) (\<lambda>u. returns (Ok u)))
             (\<lambda>m. returns (Ng (Error m))))"

definition deleteRuntimeMap_deno :: "'w host \<Rightarrow> string \<Rightarrow> (unit, 'w) handler" where
  "deleteRuntimeMap_deno h key =
     (if \<not> isSatisfiesVersion h then returns (Ng (new_VersionError (genericVersionError h)))
      else try_catch
             (and_then (perform (Env_delete key) (env_delete h key)) (\<lambda>u. returns (Ok u)))
             (\<lambda>m. returns (Ng (Error m))))"

subsection \<open>The facade\<close>

text \<open>
  A table is an object literal with the three own properties \<open>node\<close>, \<open>bun\<close>, \<open>deno\<close>.
  \<open>table[name]\<close> finds an own property, or else a member that every object literal
  inherits from \<open>Object.prototype\<close>, or else nothing (\<open>undefined\<close>).
\<close>

datatype 'f property = Own 'f | Inherited | Absent

definition Object_prototype_names :: "string list" where
  "Object_prototype_names =
     [''constructor'', ''__defineGetter__'', ''__defineSetter__'', ''hasOwnProperty'',
      ''__lookupGetter__'', ''__lookupSetter__'', ''isPrototypeOf'', ''propertyIsEnumerable'',
      ''toString'', ''valueOf'', ''__proto__'', ''toLocaleString'']"

definition property_of :: "(string \<times> 'f) list \<Rightarrow> string \<Rightarrow> 'f property" where
  "property_of table name =
     (case map_of table name of
        Some f \<Rightarrow> Own f
      | None \<Rightarrow> if name \<in> set Object_prototype_names then Inherited else Absent)"

definition setRuntimeMap ::
  "'w host \<Rightarrow> (string \<times> (string \<Rightarrow> string \<Rightarrow> (unit, 'w) handler)) list" where
  "setRuntimeMap h =
     [(''node'', setRuntimeMap_node h), (''bun'', setRuntimeMap_bun h),
      (''deno'', setRuntimeMap_deno h)]"

definition getRuntimeMap ::
  "'w host \<Rightarrow> (string \<times> (string \<Rightarrow> (string option, 'w) handler)) list" where
  "getRuntimeMap h =
     [(''node'', getRuntimeMap_node h), (''bun'', getRuntimeMap_bun h),
      (''deno'', getRuntimeMap_deno h)]"

definition deleteRuntimeMap ::
  "'w host \<Rightarrow> (string \<times> (string \<Rightarrow> (unit, 'w) handler)) list" where
  "deleteRuntimeMap h =
     [(''node'', deleteRuntimeMap_node h), (''bun'', deleteRuntimeMap_bun h),
      (''deno'', deleteRuntimeMap_deno h)]"

text \<open>
  What a facade operation gives back: the \<open>Result\<close> of a handler, or \<open>undefined\<close>, or the
  value an inherited member returns (a string, a boolean, the \<open>String\<close> object of the key,
  the table itself, or the getter or setter of \<open>__proto__\<close>). It can also throw: what a
  handler threw, or the \<open>TypeError\<close> of a call that cannot be made.
\<close>

datatype js_value =
    String_value string
  | Boolean_value bool
  | String_object string
  | The_table
  | Accessor_function string

datatype 'r returned = Handled 'r | Undefined | Value js_value

datatype facade_thrown = From_handler string | TypeError

text \<open>
  \<open>table[member]?.(key, ...)\<close> for a \<open>member\<close> inherited from \<open>Object.prototype\<close>, on a
  table with the own keys \<open>own\<close>; the table is \<open>this\<close>, the arguments are strings.
  \<open>toString\<close> and \<open>toLocaleString\<close> return \<open>[object Object]\<close>; \<open>valueOf\<close> returns the table;
  \<open>constructor\<close> is \<open>Object\<close>, which wraps the key; \<open>hasOwnProperty\<close> and
  \<open>propertyIsEnumerable\<close> tell whether the key is an own key; \<open>isPrototypeOf\<close> of a string
  is false; \<open>__lookupGetter__\<close> and \<open>__lookupSetter__\<close> return \<open>undefined\<close> unless the key
  is \<open>__proto__\<close>, the one accessor property on the prototype chain;
  \<open>__defineGetter__\<close> and \<open>__defineSetter__\<close> throw a \<open>TypeError\<close>, the second argument not
  being a function; \<open>__proto__\<close> is the prototype object, not a function, and calling it
  throws a \<open>TypeError\<close>. None of them calls a collaborator.
\<close>

definition Object_prototype_call ::
  "string list \<Rightarrow> string \<Rightarrow> string \<Rightarrow> ('r returned, facade_thrown) completion" where
  "Object_prototype_call own member key =
     (if member = ''toString'' \<or> member = ''toLocaleString''
        then Normal (Value (String_value ''[object Object]''))
      else if member = ''valueOf'' then Normal (Value The_table)
      else if member = ''constructor'' then Normal (Value (String_object key))
      else if member = ''hasOwnProperty'' \<or> member = ''propertyIsEnumerable''
        then Normal (Value (Boolean_value (key \<in> set own)))
      else if member = ''isPrototypeOf'' then Normal (Value (Boolean_value False))
      else if member = ''__lookupGetter__''
        then (if key = ''__proto__'' then Normal (Value (Accessor_function ''get __proto__''))
              else Normal Undefined)
      else if member = ''__lookupSetter__''
        then (if key = ''__proto__'' then Normal (Value (Accessor_function ''set __proto__''))
              else Normal Undefined)
      else Throw TypeError)"

definition from_handler ::
  "('r, string) completion \<Rightarrow> ('r returned, facade_thrown) completion" where
  "from_handler c = (case c of Normal r \<Rightarrow> Normal (Handled r) | Throw m \<Rightarrow> Throw (From_handler m))"

definition UniEnv_set ::
  "'w host \<Rightarrow> string \<Rightarrow> string \<Rightarrow> 'w process
     \<Rightarrow> ((unit, error) Result returned, facade_thrown) completion \<times> 'w process" where
  "UniEnv_set h key val s =
     (case property_of (setRuntimeMap h) (RuntimeName h) of
        Own handler \<Rightarrow> (case handler key val s of (c, s') \<Rightarrow> (from_handler c, s'))
      | Absent \<Rightarrow> (Normal Undefined, s)
      | Inherited \<Rightarrow>
          (Object_prototype_call (map fst (setRuntimeMap h)) (RuntimeName h) key, s))"

definition UniEnv_get ::
  "'w host \<Rightarrow> string \<Rightarrow> 'w process
     \<Rightarrow> ((string option, error) Result returned, facade_thrown) completion \<times> 'w process" where
  "UniEnv_get h key s =
     (case property_of (getRuntimeMap h) (RuntimeName h) of
        Own handler \<Rightarrow> (case handler key s of (c, s') \<Rightarrow> (from_handler c, s'))
      | Absent \<Rightarrow> (Normal Undefined, s)
      | Inherited \<Rightarrow>
          (Object_prototype_call (map fst (getRuntimeMap h)) (RuntimeName h) key, s))"

definition UniEnv_delete ::
  "'w host \<Rightarrow> string \<Rightarrow> 'w process
     \<Rightarrow> ((unit, error) Result returned, facade_thrown) completion \<times> 'w process" where
  "UniEnv_delete h key s =
     (case property_of (deleteRuntimeMap h) (RuntimeName h) of
        Own handler \<Rightarrow> (case handler key s of (c, s') \<Rightarrow> (from_handler c, s'))
      | Absent \<Rightarrow> (Normal Undefined, s)
      | Inherited \<Rightarrow>
          (Object_prototype_call (map fst (deleteRuntimeMap h)) (RuntimeName h) key, s))"

subsection \<open>A host after the specification\<close>

text \<open>
  The environment table, the \<open>.env\<close> file, the permission states, the calls that are to
  throw (with the message), as a test double would be set up, and the one choice the
  specification leaves to the loader: whether a variable that is already set keeps its
  value or takes the file's (\<open>file_wins\<close>).
\<close>

record env_world =
  vars :: "(string \<times> string) list"
  dotenv :: "(string \<times> string) list"
  permission_states :: "(string \<times> string) list"
  faults :: "(call \<times> string) list"
  file_wins :: bool

text \<open>
  Modelled from the spec: "may throw". A call listed in \<open>faults\<close> throws its message and
  changes nothing; any other call does its normal work.
\<close>

definition may_throw :: "call \<Rightarrow> env_world \<Rightarrow> (string + 'a) \<times> env_world \<Rightarrow> (string + 'a) \<times> env_world" where
  "may_throw c w normal = (case map_of (faults w) c of Some m \<Rightarrow> (Inl m, w) | None \<Rightarrow> normal)"

text \<open>
  Modelled from the spec: the Environment Store Adapter \<open>Commons.env\<close> (\<open>commons.ts\<close> is
  not among the sources). The spec's words: \<open>get(key) -> Optional<string>\<close> (may throw),
  \<open>set(key, value) -> void\<close> (may throw), \<open>delete(key) -> void\<close> (may throw), the
  primitives of a process-wide key-value table. First \<open>Commons.env.get\<close>, the read.
\<close>

definition spec_env_get :: "string \<Rightarrow> (string option, env_world) collaborator" where
  "spec_env_get key w = may_throw (Env_get key) w (Inr (map_of (vars w) key), w)"

text \<open>
  Modelled from the spec: \<open>Commons.env.set\<close>, the write primitive of the same table.
\<close>

definition spec_env_set :: "string \<Rightarrow> string \<Rightarrow> (unit, env_world) collaborator" where
  "spec_env_set key val w =
     may_throw (Env_set key val) w (Inr (), w\<lparr>vars := AList.update key val (vars w)\<rparr>)"

text \<open>
  Modelled from the spec: \<open>Commons.env.delete\<close>, the delete primitive of the same table.
\<close>

definition spec_env_delete :: "string \<Rightarrow> (unit, env_world) collaborator" where
  "spec_env_delete key w =
     may_throw (Env_delete key) w (Inr (), w\<lparr>vars := AList.delete key (vars w)\<rparr>)"

text \<open>
  Modelled from the spec: the Permission Gate \<open>Commons.permissions\<close> (\<open>commons.ts\<close> is not
  among the sources). The spec's words: \<open>query(capabilityName) -> "granted" | <other>\<close>.
  A capability with no recorded state answers \<open>prompt\<close>.
\<close>

definition spec_permissions :: "string \<Rightarrow> (string, env_world) collaborator" where
  "spec_permissions name w =
     may_throw (Permissions name) w
       (Inr (case map_of (permission_states w) name of Some st \<Rightarrow> st | None \<Rightarrow> ''prompt''), w)"

text \<open>
  Modelled from the spec: what the loader below does to the table, given the entries of
  the \<open>.env\<close> file, in the file's order: an entry whose key is not set is added; an entry
  whose key is set replaces the value when the file wins and is skipped otherwise. The
  spec's words (the file is loaded into the store; the loader is idempotent) allow both.
\<close>

fun load_file :: "bool \<Rightarrow> (string \<times> string) list \<Rightarrow> (string \<times> string) list \<Rightarrow> (string \<times> string) list" where
  "load_file wins vs [] = vs"
| "load_file wins vs ((k, v) # kvs) =
     load_file wins (if wins \<or> map_of vs k = None then AList.update k v vs else vs) kvs"

text \<open>
  Modelled from the spec: the Conditional Env-File Loader \<open>Utils.loadEnvIfNeeded\<close>
  (\<open>utils.ts\<close> is not among the sources). The spec's words: \<open>loadIfNeeded() -> void\<close> (may
  throw), idempotent; it loads the \<open>.env\<close> file into the environment store, after which
  file-backed variables that were never set explicitly are present.
\<close>

definition spec_loadEnvIfNeeded :: "(unit, env_world) collaborator" where
  "spec_loadEnvIfNeeded w =
     may_throw LoadEnvIfNeeded w
       (Inr (), w\<lparr>vars := load_file (file_wins w) (vars w) (dotenv w)\<rparr>)"

text \<open>
  The host of the runtime \<open>name\<close> with the versions \<open>v\<close> and the startup arguments \<open>argv\<close>,
  on the collaborators above.
\<close>

definition spec_host :: "string \<Rightarrow> versions \<Rightarrow> string list \<Rightarrow> env_world host" where
  "spec_host name v argv =
     \<lparr>RuntimeName = name, runtime_version = v, execArgv = argv,
      env_get = spec_env_get, env_set = spec_env_set, env_delete = spec_env_delete,
      permissions = spec_permissions, loadEnvIfNeeded = spec_loadEnvIfNeeded\<rparr>"

text \<open>
  Whether the read handler of the runtime \<open>name\<close> calls the loader on the spec's host: on
  node without an \<open>--env-file=\<close> argument, on deno with the read permission granted.
\<close>

definition loader_runs :: "string \<Rightarrow> string list \<Rightarrow> env_world \<Rightarrow> bool" where
  "loader_runs name argv w =
     ((name = ''node'' \<and> filter (\<lambda>execArg. prefix ''--env-file='' execArg) argv = [])
      \<or> (name = ''deno'' \<and> map_of (permission_states w) ''read'' = Some ''granted''))"

subsection \<open>Example hosts\<close>

definition example_world :: env_world where
  "example_world =
     \<lparr>vars = [(''HOME'', ''/root'')], dotenv = [(''K'', ''file'')],
      permission_states = [(''read'', ''granted'')], faults = [], file_wins = False\<rparr>"

definition example_process :: "env_world process" where
  "example_process = \<lparr>calls = [], world = example_world\<rparr>"

definition file_wins_process :: "env_world process" where
  "file_wins_process = \<lparr>calls = [], world = example_world\<lparr>file_wins := True\<rparr>\<rparr>"

definition old_versions :: versions where
  "old_versions = \<lparr>require = ''1.10.0'', current = ''1.9.0''\<rparr>"

definition new_versions :: versions where
  "new_versions = \<lparr>require = ''1.9.0'', current = ''1.10.0''\<rparr>"

definition boom_process :: "call \<Rightarrow> env_world process" where
  "boom_process c = \<lparr>calls = [], world = example_world\<lparr>faults := [(c, ''boom'')]\<rparr>\<rparr>"

definition denied_process :: "env_world process" where
  "denied_process = \<lparr>calls = [], world = example_world\<lparr>permission_states := [(''read'', ''denied'')]\<rparr>\<rparr>"

subsection \<open>All or nothing\<close>






section \<open>Properties\<close>

lemmas handler_defs =
  setRuntimeMap_node_def setRuntimeMap_bun_def setRuntimeMap_deno_def
  getRuntimeMap_node_def getRuntimeMap_bun_def getRuntimeMap_deno_def
  deleteRuntimeMap_node_def deleteRuntimeMap_bun_def deleteRuntimeMap_deno_def

lemmas action_defs = returns_def and_then_def perform_def try_catch_def invoke_def

lemmas spec_collaborator_defs =
  spec_host_def spec_env_get_def spec_env_set_def spec_env_delete_def spec_permissions_def
  spec_loadEnvIfNeeded_def may_throw_def

lemmas example_defs =
  example_process_def example_world_def boom_process_def denied_process_def
  file_wins_process_def

lemmas facade_defs =
  UniEnv_set_def UniEnv_get_def UniEnv_delete_def property_of_def
  setRuntimeMap_def getRuntimeMap_def deleteRuntimeMap_def

lemma old_gate: "\<not> isSatisfiesVersion (spec_host name old_versions argv)"
  by (simp add: isSatisfiesVersion_def version_def spec_host_def old_versions_def
      moreThan_def parse_nat_def digit_val_def)

lemma new_gate: "isSatisfiesVersion (spec_host name new_versions argv)"
  by (simp add: isSatisfiesVersion_def version_def spec_host_def new_versions_def
      moreThan_def parse_nat_def digit_val_def)

subsection \<open>The version gate comes first\<close>

text \<open>
  C1. On every runtime and for each of \<open>set\<close>, \<open>get\<close> and \<open>delete\<close>: when the version
  check fails, the handler returns the \<open>VersionError\<close> of the generic profile and the
  process state is the one it started from: no collaborator was called (the call log is
  unchanged) and the host state, the environment table in it, is untouched.
\<close>

theorem version_gate_first:
  assumes "\<not> isSatisfiesVersion h"
  shows "setRuntimeMap_node h key val s = (Normal (Ng (new_VersionError (genericVersionError h))), s)
       \<and> setRuntimeMap_bun h key val s = (Normal (Ng (new_VersionError (genericVersionError h))), s)
       \<and> setRuntimeMap_deno h key val s = (Normal (Ng (new_VersionError (genericVersionError h))), s)
       \<and> getRuntimeMap_node h key s = (Normal (Ng (new_VersionError (genericVersionError h))), s)
       \<and> getRuntimeMap_bun h key s = (Normal (Ng (new_VersionError (genericVersionError h))), s)
       \<and> getRuntimeMap_deno h key s = (Normal (Ng (new_VersionError (genericVersionError h))), s)
       \<and> deleteRuntimeMap_node h key s = (Normal (Ng (new_VersionError (genericVersionError h))), s)
       \<and> deleteRuntimeMap_bun h key s = (Normal (Ng (new_VersionError (genericVersionError h))), s)
       \<and> deleteRuntimeMap_deno h key s = (Normal (Ng (new_VersionError (genericVersionError h))), s)
       \<and> error_name (new_VersionError (genericVersionError h)) = ''VersionError''"
  using assms by (simp add: handler_defs returns_def new_VersionError_def)

theorem version_gate_first_witness:
  "\<not> isSatisfiesVersion (spec_host ''deno'' old_versions [])
   \<and> setRuntimeMap_deno (spec_host ''deno'' old_versions []) ''K'' ''v'' example_process
       = (Normal (Ng (VersionError ''Deno version 1.10.0 or higher is required. Current version: 1.9.0'')),
          example_process)
   \<and> getRuntimeMap_node (spec_host ''node'' old_versions []) ''K'' example_process
       = (Normal (Ng (VersionError ''Node.js version 1.10.0 or higher is required. Current version: 1.9.0'')),
          example_process)
   \<and> deleteRuntimeMap_bun (spec_host ''bun'' old_versions []) ''HOME'' example_process
       = (Normal (Ng (VersionError ''Bun version 1.10.0 or higher is required. Current version: 1.9.0'')),
          example_process)"
  using version_gate_first [OF old_gate, of "''deno''" "[]" "''K''" "''v''" example_process]
        version_gate_first [OF old_gate, of "''node''" "[]" "''K''" "''v''" example_process]
        version_gate_first [OF old_gate, of "''bun''" "[]" "''HOME''" "''v''" example_process]
        old_gate [of "''deno''" "[]"]
  by (simp add: new_VersionError_def genericVersionError_def runtime_def version_def
        spec_host_def old_versions_def upper_char_def)

subsection \<open>The read handlers of node and deno\<close>

text \<open>
  C2. \<open>getRuntimeMap.node\<close> with the version gate passed. When an argument of \<open>execArgv\<close>
  starts with \<open>--env-file=\<close>, the one call the handler makes is the adapter's \<open>get\<close>, on
  the host state as it found it: the loader is not called. Otherwise the loader is called
  once and first; if it returns, the adapter's \<open>get\<close> follows on the state the loader
  left, and if it throws, nothing follows.
\<close>

theorem node_get_loader:
  assumes "isSatisfiesVersion h"
  shows "(if \<exists>execArg \<in> set (execArgv h). prefix ''--env-file='' execArg
          then map fst (calls (snd (getRuntimeMap_node h key s))) = map fst (calls s) @ [Env_get key]
             \<and> world (snd (getRuntimeMap_node h key s)) = snd (env_get h key (world s))
          else (case loadEnvIfNeeded h (world s) of
                  (Inl m, w) \<Rightarrow>
                     map fst (calls (snd (getRuntimeMap_node h key s)))
                       = map fst (calls s) @ [LoadEnvIfNeeded]
                   \<and> world (snd (getRuntimeMap_node h key s)) = w
                | (Inr u, w) \<Rightarrow>
                     map fst (calls (snd (getRuntimeMap_node h key s)))
                       = map fst (calls s) @ [LoadEnvIfNeeded, Env_get key]
                   \<and> world (snd (getRuntimeMap_node h key s)) = snd (env_get h key w)))"
  using assms
  by (auto simp: getRuntimeMap_node_def action_defs filter_empty_conv
        split: prod.splits sum.splits completion.splits)

theorem node_get_loader_witness:
  "isSatisfiesVersion (spec_host ''node'' new_versions [''--no-warnings'', ''--env-file=foo''])
   \<and> getRuntimeMap_node (spec_host ''node'' new_versions [''--no-warnings'', ''--env-file=foo''])
        ''K'' example_process
      = (Normal (Ok None), \<lparr>calls = [(Env_get ''K'', Returned)], world = example_world\<rparr>)
   \<and> getRuntimeMap_node (spec_host ''node'' new_versions [''--no-warnings'']) ''K'' example_process
      = (Normal (Ok (Some ''file'')),
         \<lparr>calls = [(LoadEnvIfNeeded, Returned), (Env_get ''K'', Returned)],
          world = example_world\<lparr>vars := [(''HOME'', ''/root''), (''K'', ''file'')]\<rparr>\<rparr>)
   \<and> getRuntimeMap_node (spec_host ''node'' new_versions []) ''K'' (boom_process LoadEnvIfNeeded)
      = (Normal (Ng (Error ''boom'')),
         \<lparr>calls = [(LoadEnvIfNeeded, Threw ''boom'')], world = world (boom_process LoadEnvIfNeeded)\<rparr>)"
  using node_get_loader [OF new_gate, of "''node''" "[''--no-warnings'', ''--env-file=foo'']" "''K''" example_process]
        node_get_loader [OF new_gate, of "''node''" "[''--no-warnings'']" "''K''" example_process]
        node_get_loader [OF new_gate, of "''node''" "[]" "''K''" "boom_process LoadEnvIfNeeded"]
        new_gate [of "''node''"]
  by (simp add: getRuntimeMap_node_def action_defs spec_collaborator_defs example_defs)

text \<open>
  C3. \<open>getRuntimeMap.node\<close> with the version gate passed. With an \<open>--env-file=\<close>
  argument, a throw of the adapter's \<open>get\<close> is answered with the \<open>VersionError\<close> of
  \<open>nodeVersionError\<close>, whose required version is \<open>20.6.0\<close>; the thrown message is dropped.
  Without such an argument, a throw of the loader, or of the adapter's \<open>get\<close> after
  it, is answered with an \<open>Error\<close> that carries the thrown message.
\<close>

theorem node_get_failures:
  assumes "isSatisfiesVersion h"
  shows "((\<exists>execArg \<in> set (execArgv h). prefix ''--env-file='' execArg)
            \<and> fst (env_get h key (world s)) = Inl m
          \<longrightarrow> fst (getRuntimeMap_node h key s) = Normal (Ng (new_VersionError (nodeVersionError h)))
              \<and> new_VersionError (nodeVersionError h)
                  = VersionError (runtime h @ '' version 20.6.0 or higher is required. Current version: ''
                                    @ current (runtime_version h))
              \<and> error_name (new_VersionError (nodeVersionError h)) = ''VersionError'')
       \<and> (\<not> (\<exists>execArg \<in> set (execArgv h). prefix ''--env-file='' execArg)
            \<and> fst (loadEnvIfNeeded h (world s)) = Inl m
          \<longrightarrow> fst (getRuntimeMap_node h key s) = Normal (Ng (Error m)))
       \<and> (\<not> (\<exists>execArg \<in> set (execArgv h). prefix ''--env-file='' execArg)
            \<and> loadEnvIfNeeded h (world s) = (Inr u, w) \<and> fst (env_get h key w) = Inl m
          \<longrightarrow> fst (getRuntimeMap_node h key s) = Normal (Ng (Error m)))"
  using assms
  by (auto simp: getRuntimeMap_node_def action_defs filter_empty_conv new_VersionError_def
        nodeVersionError_def version_def split: prod.splits sum.splits completion.splits)

theorem node_get_failures_witness:
  "isSatisfiesVersion (spec_host ''node'' new_versions [''--env-file=.env''])
   \<and> fst (env_get (spec_host ''node'' new_versions [''--env-file=.env'']) ''K''
            (world (boom_process (Env_get ''K'')))) = Inl ''boom''
   \<and> fst (getRuntimeMap_node (spec_host ''node'' new_versions [''--env-file=.env'']) ''K''
            (boom_process (Env_get ''K'')))
      = Normal (Ng (VersionError ''Node.js version 20.6.0 or higher is required. Current version: 1.10.0''))
   \<and> fst (getRuntimeMap_node (spec_host ''node'' new_versions []) ''K''
            (boom_process LoadEnvIfNeeded))
      = Normal (Ng (Error ''boom''))
   \<and> fst (getRuntimeMap_node (spec_host ''node'' new_versions []) ''K''
            (boom_process (Env_get ''K'')))
      = Normal (Ng (Error ''boom''))"
  using node_get_failures [OF new_gate, of "''node''" "[''--env-file=.env'']" "''K''"
          "boom_process (Env_get ''K'')" "''boom''"]
        node_get_failures [OF new_gate, of "''node''" "[]" "''K''"
          "boom_process LoadEnvIfNeeded" "''boom''"]
        node_get_failures [OF new_gate, of "''node''" "[]" "''K''"
          "boom_process (Env_get ''K'')" "''boom''"]
        new_gate [of "''node''"]
  by (simp add: getRuntimeMap_node_def action_defs spec_collaborator_defs example_defs
        new_VersionError_def nodeVersionError_def version_def runtime_def upper_char_def
        new_versions_def)

text \<open>
  C4. \<open>getRuntimeMap.deno\<close> with the version gate passed. The first call is the
  permission query, with the name \<open>read\<close>, and it is the only query. The loader is
  called exactly when the query answers \<open>granted\<close>. The adapter's \<open>get\<close> comes last, after
  either answer, unless the query or the loader threw. The result is \<open>Ok\<close> after a \<open>get\<close>
  that returned, and otherwise an \<open>Error\<close> with the message of the call that threw, which
  is the last call made; the handler itself does not throw.
\<close>

theorem deno_get_permission_gate:
  assumes "isSatisfiesVersion h"
  shows "map fst (calls (snd (getRuntimeMap_deno h key s)))
           = map fst (calls s) @
             (case permissions h ''read'' (world s) of
                (Inl m, w1) \<Rightarrow> [Permissions ''read'']
              | (Inr permission, w1) \<Rightarrow>
                  if permission = ''granted''
                  then (case fst (loadEnvIfNeeded h w1) of
                          Inl m \<Rightarrow> [Permissions ''read'', LoadEnvIfNeeded]
                        | Inr u \<Rightarrow> [Permissions ''read'', LoadEnvIfNeeded, Env_get key])
                  else [Permissions ''read'', Env_get key])
       \<and> (case fst (getRuntimeMap_deno h key s) of
             Normal (Ok v) \<Rightarrow>
               last (calls (snd (getRuntimeMap_deno h key s))) = (Env_get key, Returned)
           | Normal (Ng e) \<Rightarrow>
               \<exists>c m. last (calls (snd (getRuntimeMap_deno h key s))) = (c, Threw m)
                     \<and> e = Error m
           | Throw m \<Rightarrow> False)"
  using assms
  by (auto simp: getRuntimeMap_deno_def action_defs
        split: prod.splits sum.splits completion.splits)

theorem deno_get_permission_gate_witness:
  "isSatisfiesVersion (spec_host ''deno'' new_versions [])
   \<and> getRuntimeMap_deno (spec_host ''deno'' new_versions []) ''K'' example_process
      = (Normal (Ok (Some ''file'')),
         \<lparr>calls = [(Permissions ''read'', Returned), (LoadEnvIfNeeded, Returned),
                   (Env_get ''K'', Returned)],
          world = example_world\<lparr>vars := [(''HOME'', ''/root''), (''K'', ''file'')]\<rparr>\<rparr>)
   \<and> getRuntimeMap_deno (spec_host ''deno'' new_versions []) ''K'' denied_process
      = (Normal (Ok None),
         \<lparr>calls = [(Permissions ''read'', Returned), (Env_get ''K'', Returned)],
          world = world denied_process\<rparr>)
   \<and> getRuntimeMap_deno (spec_host ''deno'' new_versions []) ''K'' (boom_process LoadEnvIfNeeded)
      = (Normal (Ng (Error ''boom'')),
         \<lparr>calls = [(Permissions ''read'', Returned), (LoadEnvIfNeeded, Threw ''boom'')],
          world = world (boom_process LoadEnvIfNeeded)\<rparr>)
   \<and> getRuntimeMap_deno (spec_host ''deno'' new_versions []) ''K''
        (boom_process (Permissions ''read''))
      = (Normal (Ng (Error ''boom'')),
         \<lparr>calls = [(Permissions ''read'', Threw ''boom'')],
          world = world (boom_process (Permissions ''read''))\<rparr>)"
  using deno_get_permission_gate [OF new_gate, of "''deno''" "[]" "''K''" example_process]
        deno_get_permission_gate [OF new_gate, of "''deno''" "[]" "''K''" denied_process]
        new_gate [of "''deno''"]
  by (simp add: getRuntimeMap_deno_def action_defs spec_collaborator_defs example_defs)

subsection \<open>Failures are values\<close>






text \<open>
  C8. With the version gate passed, when the adapter primitive throws an \<open>Error\<close> with
  message \<open>m\<close>, the result is \<open>Ng\<close> of an \<open>Error\<close> whose message is \<open>m\<close>: for \<open>set\<close> and
  \<open>delete\<close> on the three runtimes, for \<open>get\<close> on bun, for \<open>get\<close> on deno (the query and the
  loader, where it runs, having returned), and for \<open>get\<close> on node without an
  \<open>--env-file=\<close> argument (the loader having returned).
\<close>

theorem adapter_message_kept:
  assumes "isSatisfiesVersion h"
  shows "(fst (env_set h key val (world s)) = Inl m
            \<longrightarrow> fst (setRuntimeMap_node h key val s) = Normal (Ng (Error m))
              \<and> fst (setRuntimeMap_bun h key val s) = Normal (Ng (Error m))
              \<and> fst (setRuntimeMap_deno h key val s) = Normal (Ng (Error m)))
       \<and> (fst (env_delete h key (world s)) = Inl m
            \<longrightarrow> fst (deleteRuntimeMap_node h key s) = Normal (Ng (Error m))
              \<and> fst (deleteRuntimeMap_bun h key s) = Normal (Ng (Error m))
              \<and> fst (deleteRuntimeMap_deno h key s) = Normal (Ng (Error m)))
       \<and> (fst (env_get h key (world s)) = Inl m
            \<longrightarrow> fst (getRuntimeMap_bun h key s) = Normal (Ng (Error m)))
       \<and> (permissions h ''read'' (world s) = (Inr permission, w1)
            \<and> (if permission = ''granted'' then loadEnvIfNeeded h w1 else (Inr (), w1)) = (Inr u, w2)
            \<and> fst (env_get h key w2) = Inl m
            \<longrightarrow> fst (getRuntimeMap_deno h key s) = Normal (Ng (Error m)))
       \<and> (\<not> (\<exists>execArg \<in> set (execArgv h). prefix ''--env-file='' execArg)
            \<and> loadEnvIfNeeded h (world s) = (Inr u, w2) \<and> fst (env_get h key w2) = Inl m
            \<longrightarrow> fst (getRuntimeMap_node h key s) = Normal (Ng (Error m)))
       \<and> message (Error m) = m"
  using assms
  by (auto simp: handler_defs action_defs filter_empty_conv
        split: prod.splits sum.splits if_splits completion.splits)

theorem adapter_message_kept_witness:
  "isSatisfiesVersion (spec_host ''node'' new_versions [])
   \<and> fst (env_set (spec_host ''node'' new_versions []) ''K'' ''v''
             (world (boom_process (Env_set ''K'' ''v'')))) = Inl ''boom''
   \<and> fst (setRuntimeMap_node (spec_host ''node'' new_versions []) ''K'' ''v''
             (boom_process (Env_set ''K'' ''v''))) = Normal (Ng (Error ''boom''))
   \<and> fst (deleteRuntimeMap_deno (spec_host ''deno'' new_versions []) ''K''
             (boom_process (Env_delete ''K''))) = Normal (Ng (Error ''boom''))
   \<and> fst (getRuntimeMap_bun (spec_host ''bun'' new_versions []) ''K''
             (boom_process (Env_get ''K''))) = Normal (Ng (Error ''boom''))
   \<and> fst (getRuntimeMap_deno (spec_host ''deno'' new_versions []) ''K''
             (boom_process (Env_get ''K''))) = Normal (Ng (Error ''boom''))
   \<and> fst (getRuntimeMap_node (spec_host ''node'' new_versions []) ''K''
             (boom_process (Env_get ''K''))) = Normal (Ng (Error ''boom''))
   \<and> message (Error ''boom'') = ''boom''"
  using adapter_message_kept [OF new_gate, of "''node''" "[]" "''K''" "''v''"
          "boom_process (Env_set ''K'' ''v'')" "''boom''"]
        adapter_message_kept [OF new_gate, of "''deno''" "[]" "''K''" "''v''"
          "boom_process (Env_delete ''K'')" "''boom''"]
        adapter_message_kept [OF new_gate, of "''bun''" "[]" "''K''" "''v''"
          "boom_process (Env_get ''K'')" "''boom''"]
        new_gate [of "''node''" "[]"] new_gate [of "''deno''" "[]"] new_gate [of "''bun''" "[]"]
  by (simp add: handler_defs action_defs spec_collaborator_defs example_defs)

subsection \<open>The two version error profiles\<close>

text \<open>
  C9. Both profiles carry the display name \<open>runtime\<close>: \<open>ucFirst\<close> of the runtime
  identifier, with \<open>.js\<close> appended first when the identifier is \<open>node\<close> (\<open>Node.js\<close>, \<open>Bun\<close>,
  \<open>Deno\<close>). Both carry the current version that \<open>Commons.runtime.version\<close> reports. The
  node profile is the generic profile with the required version replaced by \<open>20.6.0\<close>;
  the generic one requires the version that \<open>Commons.runtime.version\<close> reports. The
  message of a \<open>VersionError\<close> is
  \<open><runtime> version <require> or higher is required. Current version: <current>\<close>.
\<close>

theorem version_error_profiles:
  "prop_runtime (genericVersionError h) = runtime h
   \<and> prop_runtime (nodeVersionError h) = runtime h
   \<and> (RuntimeName h = ''node'' \<longrightarrow> runtime h = ''Node.js'')
   \<and> (RuntimeName h = ''bun'' \<longrightarrow> runtime h = ''Bun'')
   \<and> (RuntimeName h = ''deno'' \<longrightarrow> runtime h = ''Deno'')
   \<and> (RuntimeName h \<noteq> ''node'' \<longrightarrow> runtime h = ucFirst (RuntimeName h))
   \<and> current (prop_version (genericVersionError h)) = current (runtime_version h)
   \<and> current (prop_version (nodeVersionError h)) = current (runtime_version h)
   \<and> require (prop_version (genericVersionError h)) = require (runtime_version h)
   \<and> require (prop_version (nodeVersionError h)) = ''20.6.0''
   \<and> nodeVersionError h
       = (genericVersionError h)
           \<lparr>prop_version := (prop_version (genericVersionError h))\<lparr>require := ''20.6.0''\<rparr>\<rparr>
   \<and> new_VersionError prop
       = VersionError (prop_runtime prop @ '' version '' @ require (prop_version prop)
                        @ '' or higher is required. Current version: ''
                        @ current (prop_version prop))
   \<and> error_name (new_VersionError prop) = ''VersionError''"
  by (simp add: genericVersionError_def nodeVersionError_def version_def runtime_def
        new_VersionError_def upper_char_def)

theorem version_error_profiles_witness:
  "RuntimeName (spec_host ''node'' new_versions []) = ''node''
   \<and> runtime (spec_host ''node'' new_versions []) = ''Node.js''
   \<and> runtime (spec_host ''bun'' new_versions []) = ''Bun''
   \<and> runtime (spec_host ''deno'' new_versions []) = ''Deno''
   \<and> new_VersionError (genericVersionError (spec_host ''node'' new_versions []))
       = VersionError ''Node.js version 1.9.0 or higher is required. Current version: 1.10.0''
   \<and> new_VersionError (nodeVersionError (spec_host ''node'' new_versions []))
       = VersionError ''Node.js version 20.6.0 or higher is required. Current version: 1.10.0''
   \<and> new_VersionError (genericVersionError (spec_host ''deno'' old_versions []))
       = VersionError ''Deno version 1.10.0 or higher is required. Current version: 1.9.0''"
  using version_error_profiles [of "spec_host ''node'' new_versions []" "genericVersionError (spec_host ''node'' new_versions [])"]
        version_error_profiles [of "spec_host ''node'' new_versions []" "nodeVersionError (spec_host ''node'' new_versions [])"]
        version_error_profiles [of "spec_host ''bun'' new_versions []" "genericVersionError (spec_host ''bun'' new_versions [])"]
        version_error_profiles [of "spec_host ''deno'' old_versions []" "genericVersionError (spec_host ''deno'' old_versions [])"]
  by (simp add: spec_host_def new_versions_def old_versions_def genericVersionError_def
        nodeVersionError_def version_def runtime_def new_VersionError_def upper_char_def)

subsection \<open>The facade is a dispatch\<close>





subsection \<open>The version comparator\<close>

lemma digit_cases:
  "d < (10::nat) \<Longrightarrow>
     d = 0 \<or> d = 1 \<or> d = 2 \<or> d = 3 \<or> d = 4 \<or> d = 5 \<or> d = 6 \<or> d = 7 \<or> d = 8 \<or> d = 9"
  by arith

lemma digit_val_digit_char: "d < 10 \<Longrightarrow> digit_val (digit_char d) = d"
  by (drule digit_cases, elim disjE) (simp_all add: digit_val_def digit_char_def)

lemma digit_char_not_dot: "d < 10 \<Longrightarrow> digit_char d \<noteq> CHR ''.''"
  by (drule digit_cases, elim disjE) (simp_all add: digit_char_def)

lemma parse_nat_snoc: "parse_nat (s @ [c]) = 10 * parse_nat s + digit_val c"
  by (simp add: parse_nat_def)

lemma parse_nat_decimal: "parse_nat (decimal n) = n"
proof (induction n rule: decimal.induct)
  case (1 n)
  show ?case
  proof (cases "n < 10")
    case True
    then show ?thesis
      by (simp add: decimal.simps [of n] parse_nat_def digit_val_digit_char)
  next
    case False
    with "1.IH" show ?thesis
      by (simp add: decimal.simps [of n] parse_nat_snoc digit_val_digit_char)
  qed
qed

lemma decimal_no_dot: "CHR ''.'' \<notin> set (decimal n)"
proof (induction n rule: decimal.induct)
  case (1 n)
  show ?case
  proof (cases "n < 10")
    case True
    then show ?thesis
      using digit_char_not_dot [of n] by (auto simp: decimal.simps [of n])
  next
    case False
    with "1.IH" show ?thesis
      using digit_char_not_dot [of "n mod 10"] by (auto simp: decimal.simps [of n])
  qed
qed

lemma split_on_nonempty: "split_on d s \<noteq> []"
  by (induction s) (auto split: list.splits)

lemma split_on_no_sep: "d \<notin> set s \<Longrightarrow> split_on d s = [s]"
  by (induction s) auto

lemma split_on_first: "d \<notin> set p \<Longrightarrow> split_on d (p @ d # rest) = p # split_on d rest"
  by (induction p) auto

lemma split_on_semver:
  "split_on CHR ''.'' (semver a b c) = [decimal a, decimal b, decimal c]"
  by (simp add: semver_def split_on_first split_on_no_sep decimal_no_dot)

lemma semver_examples:
  "semver 1 9 0 = ''1.9.0''" "semver 1 10 0 = ''1.10.0''" "semver 1 2 0 = ''1.2.0''"
  "semver 20 6 0 = ''20.6.0''" "semver 18 19 1 = ''18.19.1''"
  by (simp_all add: semver_def decimal.simps digit_char_def)

text \<open>
  C6. On the version strings of two triples of numbers, \<open>moreThan require current\<close> is
  true exactly when the triple of \<open>current\<close> is at least the triple of \<open>require\<close>, the
  major compared first, then the minor, then the patch, as numbers (\<open>1.10.0\<close> is above
  \<open>1.9.0\<close>). \<open>isSatisfiesVersion\<close> is \<open>moreThan\<close> of the required and the current version
  that \<open>Commons.runtime.version\<close> reports, in this order.
\<close>

theorem moreThan_numeric:
  "moreThan (semver rmajor rminor rpatch) (semver cmajor cminor cpatch)
     = (rmajor < cmajor
        \<or> (rmajor = cmajor \<and> (rminor < cminor \<or> (rminor = cminor \<and> rpatch \<le> cpatch))))
   \<and> isSatisfiesVersion h = moreThan (require (runtime_version h)) (current (runtime_version h))"
  by (simp add: moreThan_def split_on_semver parse_nat_decimal isSatisfiesVersion_def version_def)

theorem moreThan_numeric_witness:
  "moreThan ''1.9.0'' ''1.10.0'' \<and> \<not> moreThan ''1.10.0'' ''1.9.0''
   \<and> moreThan ''1.2.0'' ''1.10.0'' \<and> moreThan ''20.6.0'' ''20.6.0''
   \<and> \<not> moreThan ''20.6.0'' ''18.19.1''
   \<and> isSatisfiesVersion (spec_host ''node'' \<lparr>require = ''1.9.0'', current = ''1.10.0''\<rparr> [])"
  using moreThan_numeric [of 1 9 0 1 10 0 "spec_host ''node'' \<lparr>require = ''1.9.0'', current = ''1.10.0''\<rparr> []",
          unfolded semver_examples]
        moreThan_numeric [of 1 10 0 1 9 0 "spec_host ''node'' new_versions []", unfolded semver_examples]
        moreThan_numeric [of 1 2 0 1 10 0 "spec_host ''node'' new_versions []", unfolded semver_examples]
        moreThan_numeric [of 20 6 0 20 6 0 "spec_host ''node'' new_versions []", unfolded semver_examples]
        moreThan_numeric [of 20 6 0 18 19 1 "spec_host ''node'' new_versions []", unfolded semver_examples]
  by (simp add: spec_host_def)

subsection \<open>Set, get, delete on the host of the specification\<close>

text \<open>
  The loader of the model brings in the variables of the file and no others, and it is
  idempotent on the table, whichever way it treats a variable that is already set.
\<close>

lemma load_file_frame:
  "map_of kvs k = None \<Longrightarrow> map_of (load_file wins vs kvs) k = map_of vs k"
  by (induction kvs arbitrary: vs) (auto simp: update_conv' split: if_splits)

lemma map_of_load_file:
  "map_of (load_file wins vs kvs)
     = (if wins then map_of vs ++ map_of (rev kvs) else map_of kvs ++ map_of vs)"
proof (induction kvs arbitrary: vs)
  case Nil
  then show ?case by simp
next
  case (Cons kv kvs)
  obtain k v where kv: "kv = (k, v)" by (cases kv)
  show ?case
  proof (cases wins)
    case True
    have "map_of (load_file True vs (kv # kvs)) = (map_of vs)(k \<mapsto> v) ++ map_of (rev kvs)"
      using Cons.IH [of "AList.update k v vs"] True by (simp add: kv update_conv')
    also have "\<dots> = map_of vs ++ map_of (rev (kv # kvs))"
      by (auto simp: kv fun_eq_iff map_add_def split: option.splits)
    finally show ?thesis using True by simp
  next
    case False
    show ?thesis
    proof (cases "map_of vs k")
      case None
      have step: "load_file False vs (kv # kvs) = load_file False (AList.update k v vs) kvs"
        using None by (simp add: kv)
      have "map_of (load_file False (AList.update k v vs) kvs) = map_of kvs ++ (map_of vs)(k \<mapsto> v)"
        using Cons.IH [of "AList.update k v vs"] False by (simp only: update_conv' if_False)
      also have "\<dots> = map_of (kv # kvs) ++ map_of vs"
        using None by (auto simp: kv fun_eq_iff map_add_def split: option.splits)
      finally show ?thesis using False step by simp
    next
      case (Some old)
      have step: "load_file False vs (kv # kvs) = load_file False vs kvs"
        using Some by (simp add: kv)
      have "map_of (load_file False vs kvs) = map_of kvs ++ map_of vs"
        using Cons.IH [of vs] False by (simp only: if_False)
      also have "\<dots> = map_of (kv # kvs) ++ map_of vs"
        using Some by (auto simp: kv fun_eq_iff map_add_def split: option.splits)
      finally show ?thesis using False step by simp
    qed
  qed
qed

lemma load_file_keeps:
  "map_of vs k = Some v \<Longrightarrow> map_of (load_file False vs kvs) k = Some v"
  by (simp add: map_of_load_file map_add_def)

lemma load_file_idempotent:
  "map_of (load_file wins (load_file wins vs kvs) kvs) = map_of (load_file wins vs kvs)"
  by (auto simp: map_of_load_file fun_eq_iff map_add_def split: option.splits)

lemma map_of_update_same: "map_of (AList.update k v al) k = Some v"
  by (simp add: update_conv')

lemma map_of_delete_update: "map_of (AList.delete k (AList.update k v al)) k = None"
  by (simp add: delete_conv')

lemma spec_host_fields:
  "RuntimeName (spec_host n v a) = n" "execArgv (spec_host n v a) = a"
  "env_get (spec_host n v a) = spec_env_get" "env_set (spec_host n v a) = spec_env_set"
  "env_delete (spec_host n v a) = spec_env_delete"
  "permissions (spec_host n v a) = spec_permissions"
  "loadEnvIfNeeded (spec_host n v a) = spec_loadEnvIfNeeded"
  by (simp_all add: spec_host_def)

lemma spec_set:
  assumes "name \<in> {''node'', ''bun'', ''deno''}"
    and "isSatisfiesVersion (spec_host name v argv)"
    and "faults (world s) = []"
  shows "UniEnv_set (spec_host name v argv) k x s
           = (Normal (Handled (Ok ())),
              \<lparr>calls = calls s @ [(Env_set k x, Returned)],
               world = (world s)\<lparr>vars := AList.update k x (vars (world s))\<rparr>\<rparr>)"
proof -
  have call: "perform (Env_set k x) (spec_env_set k x) s
                = (Normal (), \<lparr>calls = calls s @ [(Env_set k x, Returned)],
                               world = (world s)\<lparr>vars := AList.update k x (vars (world s))\<rparr>\<rparr>)"
    using assms(3) by (simp add: perform_def invoke_def spec_collaborator_defs)
  from assms(1) consider "name = ''node''" | "name = ''bun''" | "name = ''deno''" by auto
  then show ?thesis
  proof cases
    case 1
    then show ?thesis using assms(2)
      by (simp add: facade_defs spec_host_fields setRuntimeMap_node_def call from_handler_def
            try_catch_def and_then_def returns_def)
  next
    case 2
    then show ?thesis using assms(2)
      by (simp add: facade_defs spec_host_fields setRuntimeMap_bun_def call from_handler_def
            try_catch_def and_then_def returns_def)
  next
    case 3
    then show ?thesis using assms(2)
      by (simp add: facade_defs spec_host_fields setRuntimeMap_deno_def call from_handler_def
            try_catch_def and_then_def returns_def)
  qed
qed

lemma spec_delete:
  assumes "name \<in> {''node'', ''bun'', ''deno''}"
    and "isSatisfiesVersion (spec_host name v argv)"
    and "faults (world s) = []"
  shows "UniEnv_delete (spec_host name v argv) k s
           = (Normal (Handled (Ok ())),
              \<lparr>calls = calls s @ [(Env_delete k, Returned)],
               world = (world s)\<lparr>vars := AList.delete k (vars (world s))\<rparr>\<rparr>)"
proof -
  have call: "perform (Env_delete k) (spec_env_delete k) s
                = (Normal (), \<lparr>calls = calls s @ [(Env_delete k, Returned)],
                               world = (world s)\<lparr>vars := AList.delete k (vars (world s))\<rparr>\<rparr>)"
    using assms(3) by (simp add: perform_def invoke_def spec_collaborator_defs)
  from assms(1) consider "name = ''node''" | "name = ''bun''" | "name = ''deno''" by auto
  then show ?thesis
  proof cases
    case 1
    then show ?thesis using assms(2)
      by (simp add: facade_defs spec_host_fields deleteRuntimeMap_node_def call from_handler_def
            try_catch_def and_then_def returns_def)
  next
    case 2
    then show ?thesis using assms(2)
      by (simp add: facade_defs spec_host_fields deleteRuntimeMap_bun_def call from_handler_def
            try_catch_def and_then_def returns_def)
  next
    case 3
    then show ?thesis using assms(2)
      by (simp add: facade_defs spec_host_fields deleteRuntimeMap_deno_def call from_handler_def
            try_catch_def and_then_def returns_def)
  qed
qed

lemma spec_get:
  assumes "name \<in> {''node'', ''bun'', ''deno''}"
    and "isSatisfiesVersion (spec_host name v argv)"
    and "faults (world s) = []"
  shows "fst (UniEnv_get (spec_host name v argv) k s)
           = Normal (Handled (Ok (map_of (if loader_runs name argv (world s)
                                           then load_file (file_wins (world s)) (vars (world s))
                                                  (dotenv (world s))
                                           else vars (world s)) k)))"
proof -
  from assms(1) consider "name = ''node''" | "name = ''bun''" | "name = ''deno''" by auto
  then show ?thesis
  proof cases
    case 1
    then show ?thesis using assms(2,3)
      by (simp add: facade_defs spec_host_fields getRuntimeMap_node_def action_defs
            from_handler_def spec_env_get_def spec_permissions_def
            spec_loadEnvIfNeeded_def may_throw_def loader_runs_def)
  next
    case 2
    then show ?thesis using assms(2,3)
      by (simp add: facade_defs spec_host_fields getRuntimeMap_bun_def action_defs
            from_handler_def spec_env_get_def spec_permissions_def
            spec_loadEnvIfNeeded_def may_throw_def loader_runs_def)
  next
    case 3
    then show ?thesis using assms(2,3)
      by (simp add: facade_defs spec_host_fields getRuntimeMap_deno_def action_defs
            from_handler_def spec_env_get_def spec_permissions_def
            spec_loadEnvIfNeeded_def may_throw_def loader_runs_def split: option.splits)
  qed
qed

text \<open>
  C5, as amended. On the host of the specification, for each of the three runtimes,
  with the version gate passed and no collaborator throwing: \<open>set(k, x)\<close> succeeds and
  \<open>delete(k)\<close> after it succeeds. A \<open>get(k)\<close> after the \<open>set\<close> returns \<open>Ok\<close> with the present
  string \<open>x\<close> (the empty string too, which is not the absent payload) provided the read
  handler does not call the loader, or the \<open>.env\<close> file does not define \<open>k\<close>, or the
  loader keeps the value of a variable that is already set. A \<open>get(k)\<close> after the
  \<open>delete\<close> returns \<open>Ok\<close> with the absent payload provided the read handler does not call
  the loader or the \<open>.env\<close> file does not define \<open>k\<close>.
\<close>

theorem set_get_delete:
  assumes "name \<in> {''node'', ''bun'', ''deno''}"
    and "isSatisfiesVersion (spec_host name v argv)"
    and "faults (world s) = []"
  shows "fst (UniEnv_set (spec_host name v argv) k x s) = Normal (Handled (Ok ()))
       \<and> fst (UniEnv_delete (spec_host name v argv) k
                (snd (UniEnv_set (spec_host name v argv) k x s))) = Normal (Handled (Ok ()))
       \<and> (\<not> loader_runs name argv (world s) \<or> map_of (dotenv (world s)) k = None
            \<or> \<not> file_wins (world s)
            \<longrightarrow> fst (UniEnv_get (spec_host name v argv) k
                       (snd (UniEnv_set (spec_host name v argv) k x s)))
                  = Normal (Handled (Ok (Some x))))
       \<and> (\<not> loader_runs name argv (world s) \<or> map_of (dotenv (world s)) k = None
            \<longrightarrow> fst (UniEnv_get (spec_host name v argv) k
                       (snd (UniEnv_delete (spec_host name v argv) k
                              (snd (UniEnv_set (spec_host name v argv) k x s)))))
                  = Normal (Handled (Ok None)))
       \<and> Handled (Ok (Some x)) \<noteq> (Handled (Ok None) :: (string option, error) Result returned)"
proof -
  let ?h = "spec_host name v argv"
  let ?s1 = "\<lparr>calls = calls s @ [(Env_set k x, Returned)],
              world = (world s)\<lparr>vars := AList.update k x (vars (world s))\<rparr>\<rparr>"
  let ?s2 = "\<lparr>calls = calls ?s1 @ [(Env_delete k, Returned)],
              world = (world ?s1)\<lparr>vars := AList.delete k (vars (world ?s1))\<rparr>\<rparr>"
  have set: "UniEnv_set ?h k x s = (Normal (Handled (Ok ())), ?s1)"
    by (rule spec_set [OF assms])
  have f1: "faults (world ?s1) = []" using assms(3) by simp
  have del: "UniEnv_delete ?h k ?s1 = (Normal (Handled (Ok ())), ?s2)"
    by (rule spec_delete [OF assms(1,2) f1])
  have f2: "faults (world ?s2) = []" using assms(3) by simp
  have runs: "loader_runs name argv (w\<lparr>vars := vs\<rparr>) = loader_runs name argv w" for w vs
    by (simp add: loader_runs_def)
  have get1: "fst (UniEnv_get ?h k ?s1) = Normal (Handled (Ok (Some x)))"
    if "\<not> loader_runs name argv (world s) \<or> map_of (dotenv (world s)) k = None
        \<or> \<not> file_wins (world s)"
  proof -
    have "map_of (if loader_runs name argv (world ?s1)
                  then load_file (file_wins (world ?s1)) (vars (world ?s1)) (dotenv (world ?s1))
                  else vars (world ?s1)) k = Some x"
      using that
      by (auto simp: runs map_of_update_same load_file_keeps load_file_frame)
    with spec_get [OF assms(1,2) f1, of k] show ?thesis by (simp only:)
  qed
  have get2: "fst (UniEnv_get ?h k ?s2) = Normal (Handled (Ok None))"
    if "\<not> loader_runs name argv (world s) \<or> map_of (dotenv (world s)) k = None"
  proof -
    have "map_of (if loader_runs name argv (world ?s2)
                  then load_file (file_wins (world ?s2)) (vars (world ?s2)) (dotenv (world ?s2))
                  else vars (world ?s2)) k = None"
      using that by (auto simp: runs map_of_delete_update load_file_frame)
    with spec_get [OF assms(1,2) f2, of k] show ?thesis by (simp only:)
  qed
  show ?thesis
    using get1 get2 by (simp add: set del)
qed

theorem set_get_delete_witness:
  "''deno'' \<in> {''node'', ''bun'', ''deno''}
   \<and> isSatisfiesVersion (spec_host ''deno'' new_versions [])
   \<and> faults (world example_process) = []
   \<and> loader_runs ''deno'' [] (world example_process)
   \<and> map_of (dotenv (world example_process)) ''HOME'' = None
   \<and> fst (UniEnv_set (spec_host ''deno'' new_versions []) ''HOME'' [] example_process)
       = Normal (Handled (Ok ()))
   \<and> fst (UniEnv_get (spec_host ''deno'' new_versions []) ''HOME''
            (snd (UniEnv_set (spec_host ''deno'' new_versions []) ''HOME'' [] example_process)))
       = Normal (Handled (Ok (Some [])))
   \<and> fst (UniEnv_get (spec_host ''deno'' new_versions []) ''HOME''
            (snd (UniEnv_delete (spec_host ''deno'' new_versions []) ''HOME''
                   (snd (UniEnv_set (spec_host ''deno'' new_versions []) ''HOME'' []
                          example_process)))))
       = Normal (Handled (Ok None))
   \<and> fst (UniEnv_get (spec_host ''node'' new_versions []) ''K''
            (snd (UniEnv_set (spec_host ''node'' new_versions []) ''K'' ''v'' example_process)))
       = Normal (Handled (Ok (Some ''v'')))
   \<and> fst (UniEnv_get (spec_host ''bun'' new_versions []) ''K''
            (snd (UniEnv_delete (spec_host ''bun'' new_versions []) ''K''
                   (snd (UniEnv_set (spec_host ''bun'' new_versions []) ''K'' ''v''
                          file_wins_process)))))
       = Normal (Handled (Ok None))"
proof -
  have deno: "''deno'' \<in> {''node'', ''bun'', ''deno''}" and bun: "''bun'' \<in> {''node'', ''bun'', ''deno''}"
    and node: "''node'' \<in> {''node'', ''bun'', ''deno''}"
    by simp_all
  have calm: "faults (world example_process) = []" "faults (world file_wins_process) = []"
    by (simp_all add: example_defs)
  have runs: "loader_runs ''deno'' [] (world example_process)"
    and idle: "\<not> loader_runs ''bun'' [] (world file_wins_process)"
    and home: "map_of (dotenv (world example_process)) ''HOME'' = None"
    and keep: "\<not> file_wins (world example_process)"
    by (simp_all add: loader_runs_def example_defs)
  show ?thesis
    using set_get_delete [OF deno new_gate calm(1), of "[]" "''HOME''" "[]"]
          set_get_delete [OF node new_gate calm(1), of "[]" "''K''" "''v''"]
          set_get_delete [OF bun new_gate calm(2), of "[]" "''K''" "''v''"]
          deno new_gate [of "''deno''" "[]"] calm runs idle home keep
    by simp
qed

text \<open>
  C5 as stated fails on node without an \<open>--env-file=\<close> argument when the \<open>.env\<close> file
  defines the key. After \<open>set\<close> and \<open>delete\<close>, the \<open>get\<close> calls the loader, which loads the
  key from the file, and the payload is the file's value, whichever way the loader
  treats variables that are set. With a loader for which the file wins, the \<open>get\<close>
  right after the \<open>set\<close> returns the file's value too.
\<close>

theorem delete_then_get_counterexample:
  "isSatisfiesVersion (spec_host ''node'' new_versions [])
   \<and> fst (UniEnv_set (spec_host ''node'' new_versions []) ''K'' ''v'' example_process)
       = Normal (Handled (Ok ()))
   \<and> fst (UniEnv_delete (spec_host ''node'' new_versions []) ''K''
            (snd (UniEnv_set (spec_host ''node'' new_versions []) ''K'' ''v'' example_process)))
       = Normal (Handled (Ok ()))
   \<and> fst (UniEnv_get (spec_host ''node'' new_versions []) ''K''
            (snd (UniEnv_delete (spec_host ''node'' new_versions []) ''K''
                   (snd (UniEnv_set (spec_host ''node'' new_versions []) ''K'' ''v''
                          example_process)))))
       = Normal (Handled (Ok (Some ''file'')))
   \<and> fst (UniEnv_get (spec_host ''node'' new_versions []) ''K''
            (snd (UniEnv_delete (spec_host ''node'' new_versions []) ''K''
                   (snd (UniEnv_set (spec_host ''node'' new_versions []) ''K'' ''v''
                          file_wins_process)))))
       = Normal (Handled (Ok (Some ''file'')))
   \<and> fst (UniEnv_set (spec_host ''node'' new_versions []) ''K'' ''v'' file_wins_process)
       = Normal (Handled (Ok ()))
   \<and> fst (UniEnv_get (spec_host ''node'' new_versions []) ''K''
            (snd (UniEnv_set (spec_host ''node'' new_versions []) ''K'' ''v'' file_wins_process)))
       = Normal (Handled (Ok (Some ''file'')))"
  using new_gate [of "''node''" "[]"]
  by (simp add: facade_defs handler_defs action_defs from_handler_def spec_collaborator_defs
        example_defs)

end
